theory Spec2Isabelle
  imports Main "HOL-Library.Word"
begin

section \<open>Strings of the platform\<close>

text \<open>
  A JavaScript string is a sequence of 16-bit code units. The literals of \<^verbatim>\<open>App.tsx\<close>
  are ASCII; \<open>lit\<close> embeds them.
\<close>

type_synonym code_unit = "16 word"

type_synonym js_string = "code_unit list"

definition lit :: "string \<Rightarrow> js_string" where
  "lit cs = map (\<lambda>c. of_nat (of_char c)) cs"

text \<open>
  \<^verbatim>\<open>String.prototype.trim\<close> removes, at both ends, the code units that ECMAScript calls
  WhiteSpace (TAB, VT, FF, ZWNBSP and the space separators of Unicode) or LineTerminator
  (LF, CR, LS, PS).
\<close>

definition isWhiteSpace :: "code_unit \<Rightarrow> bool" where
  "isWhiteSpace c \<longleftrightarrow>
     c = 0x0009 \<or> c = 0x000A \<or> c = 0x000B \<or> c = 0x000C \<or> c = 0x000D \<or>
     c = 0x0020 \<or> c = 0x00A0 \<or> c = 0x1680 \<or> (0x2000 \<le> c \<and> c \<le> 0x200A) \<or>
     c = 0x2028 \<or> c = 0x2029 \<or> c = 0x202F \<or> c = 0x205F \<or> c = 0x3000 \<or> c = 0xFEFF"

definition trim :: "js_string \<Rightarrow> js_string" where
  "trim s = rev (dropWhile isWhiteSpace (rev (dropWhile isWhiteSpace s)))"

text \<open>
  Truthiness of a value of type \<^verbatim>\<open>string | undefined\<close> (\<open>None\<close> is \<^verbatim>\<open>undefined\<close>):
  only a non-empty string is truthy. \<open>or_else v d\<close> is \<^verbatim>\<open>v || d\<close> at that type.
\<close>

definition truthy :: "js_string option \<Rightarrow> bool" where
  "truthy v = (case v of None \<Rightarrow> False | Some x \<Rightarrow> x \<noteq> [])"

definition or_else :: "js_string option \<Rightarrow> js_string \<Rightarrow> js_string" where
  "or_else v d = (case v of None \<Rightarrow> d | Some x \<Rightarrow> if x \<noteq> [] then x else d)"

section \<open>The view state and its environment\<close>

text \<open>The six \<^verbatim>\<open>useState\<close> cells of the \<^verbatim>\<open>App\<close> component (lines 9 to 14).\<close>

record view_state =
  inputText :: js_string
  summary :: js_string
  isLoading :: bool
  error :: "js_string option"
  apiKeyMissing :: bool
  copyNotification :: "js_string option"

definition initial :: view_state where
  "initial = \<lparr>inputText = [], summary = [], isLoading = False, error = None,
              apiKeyMissing = False, copyNotification = None\<rparr>"

text \<open>
  Modelled from the spec: the collaborator (\<^verbatim>\<open>services/geminiService\<close>) is not among
  the sources, and the handler catches its failure as \<^verbatim>\<open>e: any\<close>. By the
  specification a failure is an error signal with an optional reason string; the handler
  reads it only through \<^verbatim>\<open>e.message\<close>, which is \<^verbatim>\<open>undefined\<close> (here \<open>None\<close>)
  or a string (an \<^verbatim>\<open>Error\<close> built without a message has the message \<^verbatim>\<open>""\<close>).
  An awaited promise is fulfilled with a value or rejected with such a failure.
\<close>

datatype thrown = Thrown (message: "js_string option")

datatype 'a settled = Fulfilled 'a | Rejected thrown

text \<open>What the component asks of the world outside it, in the order it does.\<close>

datatype effect =
    SummarizeText js_string
  | ClipboardWrite js_string
  | ConsoleError js_string
  | SetTimeout nat

text \<open>The number of calls of the collaborator among the effects.\<close>

fun requests :: "effect list \<Rightarrow> nat" where
  "requests [] = 0"
| "requests (SummarizeText t # out) = Suc (requests out)"
| "requests (e # out) = requests out"

section \<open>The handlers\<close>

text \<open>The mount effect (lines 16 to 21), given \<^verbatim>\<open>process.env.API_KEY\<close>.\<close>

definition startupCheck :: "js_string option \<Rightarrow> view_state \<Rightarrow> view_state" where
  "startupCheck API_KEY s =
     (if \<not> truthy API_KEY
      then s\<lparr>apiKeyMissing := True,
             error := Some (lit ''Gemini API key is missing. Please set the API_KEY environment variable.'')\<rparr>
      else s)"

text \<open>\<^verbatim>\<open>onChange\<close> of the text area (line 110).\<close>

definition setInputText :: "js_string \<Rightarrow> view_state \<Rightarrow> view_state" where
  "setInputText v s = s\<lparr>inputText := v\<rparr>"

text \<open>
  \<^verbatim>\<open>handleSummarize\<close> (lines 23 to 41), with the collaborator \<^verbatim>\<open>summarizeText\<close> as a
  parameter that says how each call settles. This is the run in which nothing else
  happens between the call and its settlement.
\<close>

definition handleSummarize ::
  "(js_string \<Rightarrow> js_string settled) \<Rightarrow> view_state \<Rightarrow> view_state \<times> effect list" where
  "handleSummarize summarizeText s =
     (if apiKeyMissing s then (s, [])
      else if trim (inputText s) = []
      then (s\<lparr>error := Some (lit ''Please enter some text to summarize.'')\<rparr>, [])
      else
        let s1 = s\<lparr>isLoading := True, error := None, summary := []\<rparr> in
        (case summarizeText (inputText s) of
           Fulfilled result \<Rightarrow>
             (s1\<lparr>summary := result, isLoading := False\<rparr>, [SummarizeText (inputText s)])
         | Rejected e \<Rightarrow>
             (s1\<lparr>error := Some (or_else (message e)
                       (lit ''Failed to summarize text. Check console for details.'')),
                 isLoading := False\<rparr>,
              [SummarizeText (inputText s), ConsoleError (lit ''Summarization error:'')])))"

text \<open>
  The same handler in its two halves, as the event loop runs it: up to the
  \<^verbatim>\<open>await\<close> (lines 24 to 33), and from the settlement on (lines 34 to 40). The second
  half runs on the state of that later moment.
\<close>

definition handleSummarize_begin :: "view_state \<Rightarrow> view_state \<times> effect list" where
  "handleSummarize_begin s =
     (if apiKeyMissing s then (s, [])
      else if trim (inputText s) = []
      then (s\<lparr>error := Some (lit ''Please enter some text to summarize.'')\<rparr>, [])
      else (s\<lparr>isLoading := True, error := None, summary := []\<rparr>,
            [SummarizeText (inputText s)]))"

definition handleSummarize_settle ::
  "js_string settled \<Rightarrow> view_state \<Rightarrow> view_state \<times> effect list" where
  "handleSummarize_settle r s =
     (case r of
        Fulfilled result \<Rightarrow> (s\<lparr>summary := result, isLoading := False\<rparr>, [])
      | Rejected e \<Rightarrow>
          (s\<lparr>error := Some (or_else (message e)
                    (lit ''Failed to summarize text. Check console for details.'')),
              isLoading := False\<rparr>,
           [ConsoleError (lit ''Summarization error:'')]))"

text \<open>\<^verbatim>\<open>handleClear\<close> (lines 43 to 48).\<close>

definition handleClear :: "view_state \<Rightarrow> view_state" where
  "handleClear s = s\<lparr>inputText := [], summary := [], error := None, copyNotification := None\<rparr>"

text \<open>
  \<^verbatim>\<open>showCopyNotification\<close> (lines 50 to 55) and the callback it hands to
  \<^verbatim>\<open>setTimeout\<close>.
\<close>

definition showCopyNotification :: "js_string \<Rightarrow> view_state \<Rightarrow> view_state \<times> effect list" where
  "showCopyNotification msg s = (s\<lparr>copyNotification := Some msg\<rparr>, [SetTimeout 2000])"

definition copyNotificationTimeout :: "view_state \<Rightarrow> view_state" where
  "copyNotificationTimeout s = s\<lparr>copyNotification := None\<rparr>"

text \<open>
  \<^verbatim>\<open>copyToClipboard\<close> (lines 57 to 66), with \<^verbatim>\<open>navigator.clipboard.writeText\<close> as a
  parameter; then its two halves around the \<^verbatim>\<open>await\<close>.
\<close>

definition copyToClipboard ::
  "(js_string \<Rightarrow> unit settled) \<Rightarrow> js_string \<Rightarrow> js_string \<Rightarrow> view_state
     \<Rightarrow> view_state \<times> effect list" where
  "copyToClipboard writeText text type s =
     (if text = [] then (s, [])
      else
        (case writeText text of
           Fulfilled _ \<Rightarrow>
             (let (s', out) = showCopyNotification (type @ lit '' copied to clipboard!'') s
              in (s', ClipboardWrite text # out))
         | Rejected err \<Rightarrow>
             (let (s', out) = showCopyNotification (lit ''Failed to copy '' @ type @ lit ''.'') s
              in (s', ClipboardWrite text # ConsoleError (lit ''Failed to copy text: '') # out))))"

definition copyToClipboard_begin :: "js_string \<Rightarrow> view_state \<Rightarrow> view_state \<times> effect list" where
  "copyToClipboard_begin text s = (if text = [] then (s, []) else (s, [ClipboardWrite text]))"

definition copyToClipboard_settle ::
  "unit settled \<Rightarrow> js_string \<Rightarrow> view_state \<Rightarrow> view_state \<times> effect list" where
  "copyToClipboard_settle r type s =
     (case r of
        Fulfilled _ \<Rightarrow> showCopyNotification (type @ lit '' copied to clipboard!'') s
      | Rejected err \<Rightarrow>
          (let (s', out) = showCopyNotification (lit ''Failed to copy '' @ type @ lit ''.'') s
           in (s', ConsoleError (lit ''Failed to copy text: '') # out)))"

section \<open>The event loop\<close>

text \<open>
  Everything that makes the component run a piece of its code: a handler is invoked, an
  awaited promise settles, a timer fires. \<open>run\<close> executes a sequence of them and
  collects the effects. Nothing here asks whether the page lets the user invoke the
  handler.
\<close>

datatype action =
    InputChanged js_string
  | SummarizeInvoked
  | SummarizeSettled "js_string settled"
  | ClearInvoked
  | CopyInvoked js_string js_string
  | CopySettled "unit settled" js_string
  | TimeoutFired

fun exec :: "action \<Rightarrow> view_state \<Rightarrow> view_state \<times> effect list" where
  "exec (InputChanged v) s = (setInputText v s, [])"
| "exec SummarizeInvoked s = handleSummarize_begin s"
| "exec (SummarizeSettled r) s = handleSummarize_settle r s"
| "exec ClearInvoked s = (handleClear s, [])"
| "exec (CopyInvoked text type) s = copyToClipboard_begin text s"
| "exec (CopySettled r type) s = copyToClipboard_settle r type s"
| "exec TimeoutFired s = (copyNotificationTimeout s, [])"

fun run :: "action list \<Rightarrow> view_state \<Rightarrow> view_state \<times> effect list" where
  "run [] s = (s, [])"
| "run (a # as) s =
     (let (s1, out1) = exec a s; (s2, out2) = run as s1 in (s2, out1 @ out2))"

section \<open>The page\<close>

text \<open>
  The \<^verbatim>\<open>disabled\<close> props of the rendered controls: the Clear button (line 103), the text
  area (line 114), the Summarize button (line 119), the Copy Note button (line 132); and
  the condition under which the Copy Summary button is rendered at all (line 145).
\<close>

definition clearDisabled :: "view_state \<Rightarrow> bool" where
  "clearDisabled s \<longleftrightarrow> isLoading s"

definition textareaDisabled :: "view_state \<Rightarrow> bool" where
  "textareaDisabled s \<longleftrightarrow> isLoading s"

definition summarizeDisabled :: "view_state \<Rightarrow> bool" where
  "summarizeDisabled s \<longleftrightarrow> isLoading s \<or> apiKeyMissing s \<or> trim (inputText s) = []"

definition copyNoteDisabled :: "view_state \<Rightarrow> bool" where
  "copyNoteDisabled s \<longleftrightarrow> isLoading s \<or> trim (inputText s) = []"

definition copySummaryRendered :: "view_state \<Rightarrow> bool" where
  "copySummaryRendered s \<longleftrightarrow> summary s \<noteq> [] \<and> \<not> isLoading s"

text \<open>
  The page as the user and the environment drive it: the view state, and the number of
  \<^verbatim>\<open>summarizeText\<close> calls that have not settled yet.
\<close>

record page =
  view :: view_state
  inflight :: nat

definition mounted :: "js_string option \<Rightarrow> page" where
  "mounted API_KEY = \<lparr>view = startupCheck API_KEY initial, inflight = 0\<rparr>"

text \<open>
  A handler run on the page: its calls of \<^verbatim>\<open>summarizeText\<close> are counted as in flight.
\<close>

definition invoke :: "(view_state \<Rightarrow> view_state \<times> effect list) \<Rightarrow> page \<Rightarrow> page" where
  "invoke handler p =
     (let (s, out) = handler (view p) in \<lparr>view = s, inflight = inflight p + requests out\<rparr>)"

text \<open>
  Modelled from the spec: the \<^verbatim>\<open>Button\<close> component (\<^verbatim>\<open>components/Button\<close>) is not
  among the sources. The spec has the loading flag block the issuance of a second
  request and the summarize action guarded by its preconditions; so a control whose
  \<^verbatim>\<open>disabled\<close> prop is true does not run its handler, and an enabled one runs it.
  The same is taken for the text area, and for a button that is not rendered.
\<close>

definition control :: "bool \<Rightarrow> (page \<Rightarrow> page) \<Rightarrow> page \<Rightarrow> page" where
  "control disabled handler p = (if disabled then p else handler p)"

text \<open>
  A settlement of \<^verbatim>\<open>summarizeText\<close> arrives only for a call that is in flight. A
  clipboard write may settle and a timer may fire at any moment: the page is not asked
  which of them are pending.
\<close>

datatype gesture =
    EditNote js_string
  | ClickSummarize
  | ClickClear
  | ClickCopyNote
  | ClickCopySummary
  | SummaryArrives "js_string settled"
  | WriteSettles "unit settled" js_string
  | TimerExpires

fun step :: "gesture \<Rightarrow> page \<Rightarrow> page" where
  "step (EditNote v) p =
     control (textareaDisabled (view p)) (invoke (exec (InputChanged v))) p"
| "step ClickSummarize p =
     control (summarizeDisabled (view p)) (invoke (exec SummarizeInvoked)) p"
| "step ClickClear p =
     control (clearDisabled (view p)) (invoke (exec ClearInvoked)) p"
| "step ClickCopyNote p =
     control (copyNoteDisabled (view p))
       (invoke (exec (CopyInvoked (inputText (view p)) (lit ''Note'')))) p"
| "step ClickCopySummary p =
     control (\<not> copySummaryRendered (view p))
       (invoke (exec (CopyInvoked (summary (view p)) (lit ''Summary'')))) p"
| "step (SummaryArrives r) p =
     (if inflight p = 0 then p
      else (invoke (exec (SummarizeSettled r)) p)\<lparr>inflight := inflight p - 1\<rparr>)"
| "step (WriteSettles r type) p = invoke (exec (CopySettled r type)) p"
| "step TimerExpires p = invoke (exec TimeoutFired) p"

fun steps :: "gesture list \<Rightarrow> page \<Rightarrow> page" where
  "steps [] p = p"
| "steps (g # gs) p = steps gs (step g p)"

section \<open>Sample inputs\<close>

text \<open>The end-to-end scenario of the specification, and collaborators that always answer alike.\<close>

definition sampleNote :: js_string where
  "sampleNote = lit ''Meeting notes: discuss Q3 budget.''"

definition sampleSummary :: js_string where
  "sampleSummary = lit ''Discuss Q3 budget.''"

definition sampleKey :: js_string where
  "sampleKey = lit ''k3y''"

definition answering :: "js_string \<Rightarrow> js_string \<Rightarrow> js_string settled" where
  "answering R t = Fulfilled R"

definition failing :: "js_string option \<Rightarrow> js_string \<Rightarrow> js_string settled" where
  "failing m t = Rejected (Thrown m)"

definition writable :: "js_string \<Rightarrow> unit settled" where
  "writable t = Fulfilled ()"

text \<open>A view that shows the summary of an earlier request, and one in the middle of a request.\<close>

definition summarized :: view_state where
  "summarized = initial\<lparr>inputText := sampleNote, summary := sampleSummary\<rparr>"

definition loading :: view_state where
  "loading = initial\<lparr>inputText := sampleNote, isLoading := True\<rparr>"

text \<open>The page after the sample note was typed and the Summarize button pressed.\<close>

definition requesting :: page where
  "requesting = steps [EditNote sampleNote, ClickSummarize] (mounted (Some sampleKey))"

text \<open>A view with the sample note typed in, and one whose note is three blanks.\<close>

definition drafted :: view_state where
  "drafted = setInputText sampleNote initial"

definition blanks :: js_string where
  "blanks = [0x0020, 0x0009, 0x00A0]"

definition blank :: view_state where
  "blank = setInputText blanks initial"

text \<open>A view mounted without credential; the same after the Clear button was pressed.\<close>

definition keyless :: view_state where
  "keyless = startupCheck None initial"

definition unconfigured :: view_state where
  "unconfigured = handleClear keyless"

section \<open>Strings, and the two halves of the handlers\<close>

lemma dropWhile_all_iff: "(\<forall>x \<in> set (dropWhile P xs). P x) \<longleftrightarrow> (\<forall>x \<in> set xs. P x)"
proof
  assume rest: "\<forall>x \<in> set (dropWhile P xs). P x"
  show "\<forall>x \<in> set xs. P x"
  proof
    fix x
    assume "x \<in> set xs"
    moreover have "set xs = set (takeWhile P xs) \<union> set (dropWhile P xs)"
      by (metis set_append takeWhile_dropWhile_id)
    ultimately have "x \<in> set (takeWhile P xs) \<or> x \<in> set (dropWhile P xs)" by blast
    then show "P x" using rest by (auto dest: set_takeWhileD)
  qed
next
  assume "\<forall>x \<in> set xs. P x"
  then show "\<forall>x \<in> set (dropWhile P xs). P x" by (auto dest: set_dropWhileD)
qed

lemma trim_empty_iff: "trim s = [] \<longleftrightarrow> (\<forall>c \<in> set s. isWhiteSpace c)"
  by (simp add: trim_def dropWhile_all_iff)

lemma or_else_nonempty: "d \<noteq> [] \<Longrightarrow> or_else v d \<noteq> []"
  by (simp add: or_else_def split: option.splits)

lemma handleSummarize_halves:
  "handleSummarize summarizeText s =
     (case handleSummarize_begin s of
        (s1, out) \<Rightarrow>
          if out = [] then (s1, [])
          else (case handleSummarize_settle (summarizeText (inputText s)) s1 of
                  (s2, out2) \<Rightarrow> (s2, out @ out2)))"
  by (simp add: handleSummarize_def handleSummarize_begin_def handleSummarize_settle_def
      Let_def split: settled.splits)

lemma copyToClipboard_halves:
  "copyToClipboard writeText text type s =
     (case copyToClipboard_begin text s of
        (s1, out) \<Rightarrow>
          if out = [] then (s1, [])
          else (case copyToClipboard_settle (writeText text) type s1 of
                  (s2, out2) \<Rightarrow> (s2, out @ out2)))"
  by (simp add: copyToClipboard_def copyToClipboard_begin_def copyToClipboard_settle_def
      showCopyNotification_def split: settled.splits)

lemma begin_issues:
  assumes "snd (handleSummarize_begin s) = [SummarizeText T]"
  shows "\<not> apiKeyMissing s \<and> trim (inputText s) \<noteq> [] \<and> T = inputText s"
  using assms by (simp add: handleSummarize_begin_def split: if_splits)

lemma begin_loading:
  "isLoading (fst (handleSummarize_begin s)) \<longleftrightarrow>
     isLoading s \<or> (\<not> apiKeyMissing s \<and> trim (inputText s) \<noteq> [])"
  by (simp add: handleSummarize_begin_def)

lemma begin_requests:
  "requests (snd (handleSummarize_begin s)) =
     (if \<not> apiKeyMissing s \<and> trim (inputText s) \<noteq> [] then 1 else 0)"
  by (simp add: handleSummarize_begin_def)

lemma settle_loading: "\<not> isLoading (fst (handleSummarize_settle r s))"
  by (cases r) (simp_all add: handleSummarize_settle_def)

lemma settle_requests: "requests (snd (handleSummarize_settle r s)) = 0"
  by (cases r) (simp_all add: handleSummarize_settle_def)

lemma copy_begin_quiet:
  "isLoading (fst (copyToClipboard_begin text s)) = isLoading s \<and>
   requests (snd (copyToClipboard_begin text s)) = 0"
  by (simp add: copyToClipboard_begin_def)

lemma copy_settle_quiet:
  "isLoading (fst (copyToClipboard_settle r type s)) = isLoading s \<and>
   requests (snd (copyToClipboard_settle r type s)) = 0"
  by (cases r) (simp_all add: copyToClipboard_settle_def showCopyNotification_def)

section \<open>Invariants of the event loop and of the page\<close>

lemma requests_append: "requests (xs @ ys) = requests xs + requests ys"
  by (induction xs rule: requests.induct) simp_all

lemma exec_keeps_flag: "apiKeyMissing (fst (exec a s)) = apiKeyMissing s"
proof (cases a)
  case SummarizeInvoked
  then show ?thesis by (simp add: handleSummarize_begin_def)
next
  case (SummarizeSettled r)
  then show ?thesis by (cases r) (simp_all add: handleSummarize_settle_def)
next
  case (CopySettled r type)
  then show ?thesis
    by (cases r) (simp_all add: copyToClipboard_settle_def showCopyNotification_def)
qed (simp_all add: setInputText_def handleClear_def copyToClipboard_begin_def
    copyNotificationTimeout_def)

lemma fst_run_Cons: "fst (run (a # acts) s) = fst (run acts (fst (exec a s)))"
  by (simp add: case_prod_beta)

lemma snd_run_Cons: "snd (run (a # acts) s) = snd (exec a s) @ snd (run acts (fst (exec a s)))"
  by (simp add: case_prod_beta)

lemma run_keeps_flag: "apiKeyMissing (fst (run acts s)) = apiKeyMissing s"
proof (induction acts arbitrary: s)
  case Nil
  then show ?case by simp
next
  case (Cons a acts)
  have "apiKeyMissing (fst (run acts (fst (exec a s)))) = apiKeyMissing (fst (exec a s))"
    by (rule Cons.IH)
  then show ?case by (simp only: fst_run_Cons exec_keeps_flag)
qed

lemma exec_keyless_silent:
  assumes "apiKeyMissing s"
  shows "requests (snd (exec a s)) = 0"
proof (cases a)
  case SummarizeInvoked
  with assms show ?thesis by (simp add: handleSummarize_begin_def)
next
  case (SummarizeSettled r)
  then show ?thesis by (cases r) (simp_all add: handleSummarize_settle_def)
next
  case (CopySettled r type)
  then show ?thesis
    by (cases r) (simp_all add: copyToClipboard_settle_def showCopyNotification_def)
qed (simp_all add: copyToClipboard_begin_def)

lemma run_keyless_silent: "apiKeyMissing s \<Longrightarrow> requests (snd (run acts s)) = 0"
proof (induction acts arbitrary: s)
  case Nil
  then show ?case by simp
next
  case (Cons a acts)
  from Cons.prems have "apiKeyMissing (fst (exec a s))" by (simp add: exec_keeps_flag)
  then have "requests (snd (run acts (fst (exec a s)))) = 0" by (rule Cons.IH)
  moreover from Cons.prems have "requests (snd (exec a s)) = 0" by (rule exec_keyless_silent)
  ultimately show ?case by (simp only: snd_run_Cons requests_append)
qed

lemma view_invoke: "view (invoke h p) = fst (h (view p))"
  by (simp add: invoke_def case_prod_beta)

lemma inflight_invoke: "inflight (invoke h p) = inflight p + requests (snd (h (view p)))"
  by (simp add: invoke_def case_prod_beta)

lemma step_invariant:
  assumes "inflight p = (if isLoading (view p) then 1 else 0)"
  shows "inflight (step g p) = (if isLoading (view (step g p)) then 1 else 0)"
proof (cases g)
  case (EditNote v)
  with assms show ?thesis
    by (simp add: control_def view_invoke inflight_invoke setInputText_def)
next
  case ClickSummarize
  with assms show ?thesis
    by (simp add: control_def summarizeDisabled_def view_invoke inflight_invoke
        begin_loading begin_requests)
next
  case ClickClear
  with assms show ?thesis
    by (simp add: control_def view_invoke inflight_invoke handleClear_def)
next
  case ClickCopyNote
  with assms show ?thesis
    by (simp add: control_def view_invoke inflight_invoke copy_begin_quiet)
next
  case ClickCopySummary
  with assms show ?thesis
    by (simp add: control_def view_invoke inflight_invoke copy_begin_quiet)
next
  case (SummaryArrives r)
  with assms show ?thesis
    by (simp add: view_invoke inflight_invoke settle_loading settle_requests split: if_splits)
next
  case (WriteSettles r type)
  with assms show ?thesis
    by (simp add: view_invoke inflight_invoke copy_settle_quiet)
next
  case TimerExpires
  with assms show ?thesis
    by (simp add: view_invoke inflight_invoke copyNotificationTimeout_def)
qed

lemma steps_invariant:
  "inflight p = (if isLoading (view p) then 1 else 0) \<Longrightarrow>
   inflight (steps gs p) = (if isLoading (view (steps gs p)) then 1 else 0)"
proof (induction gs arbitrary: p)
  case Nil
  then show ?case by simp
next
  case (Cons g gs)
  from Cons.prems have "inflight (step g p) = (if isLoading (view (step g p)) then 1 else 0)"
    by (rule step_invariant)
  then have "inflight (steps gs (step g p)) =
      (if isLoading (view (steps gs (step g p))) then 1 else 0)"
    by (rule Cons.IH)
  then show ?case by simp
qed

lemma mounted_invariant:
  "inflight (mounted key) = (if isLoading (view (mounted key)) then 1 else 0)"
  by (simp add: mounted_def startupCheck_def initial_def)

lemma step_keeps_flag: "apiKeyMissing (view (step g p)) = apiKeyMissing (view p)"
  by (cases g) (simp_all add: control_def view_invoke exec_keeps_flag del: exec.simps)

lemma steps_keeps_flag: "apiKeyMissing (view (steps gs p)) = apiKeyMissing (view p)"
  by (induction gs arbitrary: p) (simp_all add: step_keeps_flag)

lemma step_keeps_error:
  assumes "apiKeyMissing (view p)" and "inflight p = 0" and "g \<noteq> ClickClear"
  shows "error (view (step g p)) = error (view p) \<and> inflight (step g p) = 0"
proof (cases g)
  case (EditNote v)
  with assms show ?thesis
    by (simp add: control_def view_invoke inflight_invoke setInputText_def)
next
  case ClickSummarize
  with assms show ?thesis by (simp add: control_def summarizeDisabled_def)
next
  case ClickClear
  with assms show ?thesis by simp
next
  case ClickCopyNote
  with assms show ?thesis
    by (simp add: control_def view_invoke inflight_invoke copyToClipboard_begin_def)
next
  case ClickCopySummary
  with assms show ?thesis
    by (simp add: control_def view_invoke inflight_invoke copyToClipboard_begin_def)
next
  case (SummaryArrives r)
  with assms show ?thesis by simp
next
  case (WriteSettles r type)
  with assms show ?thesis
    by (cases r)
      (simp_all add: view_invoke inflight_invoke copyToClipboard_settle_def
        showCopyNotification_def)
next
  case TimerExpires
  with assms show ?thesis
    by (simp add: view_invoke inflight_invoke copyNotificationTimeout_def)
qed

lemma steps_keeps_error:
  "apiKeyMissing (view p) \<Longrightarrow> inflight p = 0 \<Longrightarrow> ClickClear \<notin> set gs \<Longrightarrow>
   error (view (steps gs p)) = error (view p)"
proof (induction gs arbitrary: p)
  case Nil
  then show ?case by simp
next
  case (Cons g gs)
  from Cons.prems have g: "g \<noteq> ClickClear" and gs: "ClickClear \<notin> set gs" by auto
  from Cons.prems(1,2) g
  have kept: "error (view (step g p)) = error (view p)" and idle: "inflight (step g p) = 0"
    using step_keeps_error by blast+
  from Cons.prems(1) have "apiKeyMissing (view (step g p))" by (simp add: step_keeps_flag)
  then have "error (view (steps gs (step g p))) = error (view (step g p))"
    using idle gs by (rule Cons.IH)
  with kept show ?case by simp
qed

section \<open>Facts about the sample inputs\<close>

lemma sampleNote_not_blank: "trim sampleNote \<noteq> []"
  by (simp add: sampleNote_def lit_def trim_def isWhiteSpace_def)

lemma blanks_blank: "trim blanks = []"
  by (simp add: blanks_def trim_def isWhiteSpace_def)

lemma sampleKey_truthy: "truthy (Some sampleKey)"
  by (simp add: truthy_def sampleKey_def lit_def)

lemma keyless_flag: "apiKeyMissing keyless"
  by (simp add: keyless_def startupCheck_def truthy_def)

lemma begin_drafted: "snd (handleSummarize_begin drafted) = [SummarizeText sampleNote]"
  by (simp add: handleSummarize_begin_def drafted_def setInputText_def initial_def
      sampleNote_not_blank)

lemma begin_summarized: "snd (handleSummarize_begin summarized) = [SummarizeText sampleNote]"
  by (simp add: handleSummarize_begin_def summarized_def initial_def sampleNote_not_blank)

lemma requesting_eq:
  "requesting =
     \<lparr>view = initial\<lparr>inputText := sampleNote, isLoading := True\<rparr>, inflight = 1\<rparr>"
  by (simp add: requesting_def mounted_def startupCheck_def sampleKey_truthy
      control_def textareaDisabled_def summarizeDisabled_def invoke_def setInputText_def
      handleSummarize_begin_def sampleNote_not_blank initial_def)

text \<open>The sample views are views of the page, reached by using it.\<close>

lemma loading_reached: "view requesting = loading"
  by (simp add: requesting_eq loading_def)

lemma summarized_reached:
  "view (steps [EditNote sampleNote, ClickSummarize, SummaryArrives (Fulfilled sampleSummary)]
     (mounted (Some sampleKey))) = summarized"
proof -
  have "steps [EditNote sampleNote, ClickSummarize, SummaryArrives (Fulfilled sampleSummary)]
      (mounted (Some sampleKey)) = step (SummaryArrives (Fulfilled sampleSummary)) requesting"
    by (simp add: requesting_def)
  then show ?thesis
    by (simp add: requesting_eq view_invoke handleSummarize_settle_def summarized_def initial_def)
qed

lemma unconfigured_reached: "view (step ClickClear (mounted None)) = unconfigured"
  by (simp add: mounted_def control_def clearDisabled_def view_invoke unconfigured_def
      keyless_def startupCheck_def truthy_def initial_def)

section \<open>The summarize action\<close>

text \<open>
  C1: when the summarize action issues the collaborator call on the note text \<open>T\<close>
  and the collaborator answers it with \<open>R\<close>, then once the handler has resolved the
  stored summary is \<open>R\<close> and the loading flag is false. This holds for the run without
  other events in between, and for the second half of the handler on whatever state
  \<open>s'\<close> the answer finds.
\<close>

theorem summarize_success:
  assumes "snd (handleSummarize_begin s) = [SummarizeText T]"
    and "summarizeText T = Fulfilled R"
  shows "summary (fst (handleSummarize summarizeText s)) = R \<and>
         \<not> isLoading (fst (handleSummarize summarizeText s)) \<and>
         summary (fst (handleSummarize_settle (Fulfilled R) s')) = R \<and>
         \<not> isLoading (fst (handleSummarize_settle (Fulfilled R) s'))"
proof -
  from assms(1) have guards: "\<not> apiKeyMissing s" "trim (inputText s) \<noteq> []" and T: "T = inputText s"
    using begin_issues by blast+
  from assms(2) T have "summarizeText (inputText s) = Fulfilled R" by simp
  with guards have "summary (fst (handleSummarize summarizeText s)) = R"
    and "\<not> isLoading (fst (handleSummarize summarizeText s))"
    by (simp_all add: handleSummarize_def)
  moreover have "summary (fst (handleSummarize_settle (Fulfilled R) s')) = R"
    and "\<not> isLoading (fst (handleSummarize_settle (Fulfilled R) s'))"
    by (simp_all add: handleSummarize_settle_def)
  ultimately show ?thesis by simp
qed

text \<open>The scenario of the specification: the sample note, answered by its summary.\<close>

theorem summarize_success_witness:
  "snd (handleSummarize_begin drafted) = [SummarizeText sampleNote] \<and>
   answering sampleSummary sampleNote = Fulfilled sampleSummary \<and>
   summary (fst (handleSummarize (answering sampleSummary) drafted)) = sampleSummary \<and>
   \<not> isLoading (fst (handleSummarize (answering sampleSummary) drafted)) \<and>
   summary (fst (handleSummarize_settle (Fulfilled sampleSummary) loading)) = sampleSummary \<and>
   \<not> isLoading (fst (handleSummarize_settle (Fulfilled sampleSummary) loading))"
proof -
  have call: "snd (handleSummarize_begin drafted) = [SummarizeText sampleNote]"
    by (rule begin_drafted)
  have answer: "answering sampleSummary sampleNote = Fulfilled sampleSummary"
    by (simp add: answering_def)
  show ?thesis
    using call answer
      summarize_success [where s = drafted and T = sampleNote and R = sampleSummary
        and summarizeText = "answering sampleSummary" and s' = loading]
    by simp
qed

text \<open>
  C2: when the summarize action issues the collaborator call and the call fails, then
  once the handler has resolved the error is a non-empty string, the loading flag is
  false, and the summary is what it was before the call: the value the first half of the
  handler left when it issued the call. The failure branch writes the error and the
  loading flag only, so the same holds for the second half of the handler on whatever
  state \<open>s'\<close> the failure finds.
\<close>

theorem summarize_failure:
  assumes "snd (handleSummarize_begin s) = [SummarizeText T]"
    and "summarizeText T = Rejected e"
  shows "(\<exists>m. error (fst (handleSummarize summarizeText s)) = Some m \<and> m \<noteq> []) \<and>
         \<not> isLoading (fst (handleSummarize summarizeText s)) \<and>
         summary (fst (handleSummarize summarizeText s)) = summary (fst (handleSummarize_begin s)) \<and>
         (\<exists>m. error (fst (handleSummarize_settle (Rejected e) s')) = Some m \<and> m \<noteq> []) \<and>
         \<not> isLoading (fst (handleSummarize_settle (Rejected e) s')) \<and>
         summary (fst (handleSummarize_settle (Rejected e) s')) = summary s'"
proof -
  let ?fallback = "lit ''Failed to summarize text. Check console for details.''"
  from assms(1) have guards: "\<not> apiKeyMissing s" "trim (inputText s) \<noteq> []" and T: "T = inputText s"
    using begin_issues by blast+
  from assms(2) T have rejected: "summarizeText (inputText s) = Rejected e" by simp
  have "?fallback \<noteq> []" by (simp add: lit_def)
  then have nonempty: "or_else (message e) ?fallback \<noteq> []" by (rule or_else_nonempty)
  from guards rejected
  have "error (fst (handleSummarize summarizeText s)) = Some (or_else (message e) ?fallback)"
    by (simp add: handleSummarize_def)
  with nonempty have "\<exists>m. error (fst (handleSummarize summarizeText s)) = Some m \<and> m \<noteq> []"
    by simp
  moreover from guards rejected have "\<not> isLoading (fst (handleSummarize summarizeText s))"
    and "summary (fst (handleSummarize summarizeText s)) = summary (fst (handleSummarize_begin s))"
    by (simp_all add: handleSummarize_def handleSummarize_begin_def)
  moreover have "error (fst (handleSummarize_settle (Rejected e) s')) =
      Some (or_else (message e) ?fallback)"
    by (simp add: handleSummarize_settle_def)
  with nonempty have "\<exists>m. error (fst (handleSummarize_settle (Rejected e) s')) = Some m \<and> m \<noteq> []"
    by simp
  moreover have "\<not> isLoading (fst (handleSummarize_settle (Rejected e) s'))"
    and "summary (fst (handleSummarize_settle (Rejected e) s')) = summary s'"
    by (simp_all add: handleSummarize_settle_def)
  ultimately show ?thesis by simp
qed

text \<open>
  A failure that finds the summary of an earlier request on the view leaves it there.
\<close>

theorem summarize_failure_witness:
  "snd (handleSummarize_begin drafted) = [SummarizeText sampleNote] \<and>
   failing None sampleNote = Rejected (Thrown None) \<and>
   (\<exists>m. error (fst (handleSummarize (failing None) drafted)) = Some m \<and> m \<noteq> []) \<and>
   \<not> isLoading (fst (handleSummarize (failing None) drafted)) \<and>
   summary (fst (handleSummarize (failing None) drafted)) =
     summary (fst (handleSummarize_begin drafted)) \<and>
   (\<exists>m. error (fst (handleSummarize_settle (Rejected (Thrown None)) summarized)) = Some m \<and>
      m \<noteq> []) \<and>
   \<not> isLoading (fst (handleSummarize_settle (Rejected (Thrown None)) summarized)) \<and>
   summary (fst (handleSummarize_settle (Rejected (Thrown None)) summarized)) = sampleSummary"
proof -
  have call: "snd (handleSummarize_begin drafted) = [SummarizeText sampleNote]"
    by (rule begin_drafted)
  have answer: "failing None sampleNote = Rejected (Thrown None)"
    by (simp add: failing_def)
  have shown: "summary summarized = sampleSummary"
    by (simp add: summarized_def)
  show ?thesis
    using call answer shown
      summarize_failure [where s = drafted and T = sampleNote and e = "Thrown None"
        and summarizeText = "failing None" and s' = summarized]
    by simp
qed

text \<open>
  C3, as stated, has every blank note text end in a validation error. The handler tests
  the configuration flag first (line 24) and returns there: on a view mounted without
  credential and then cleared (the view \<open>unconfigured\<close>), the note is empty and the
  summarize action sets no error.
\<close>

theorem blank_note_counterexample:
  "apiKeyMissing unconfigured \<and> inputText unconfigured = [] \<and> error unconfigured = None \<and>
   error (fst (handleSummarize (answering sampleSummary) unconfigured)) = None"
  by (simp add: handleSummarize_def unconfigured_def handleClear_def keyless_def
      startupCheck_def truthy_def initial_def)

text \<open>
  C3, amended: when the configuration flag is not set, then for every note text that is
  empty or consists only of whitespace the summarize action sets the validation error,
  changes nothing else and issues no call to the collaborator.
\<close>

theorem blank_note_rejected:
  assumes "\<not> apiKeyMissing s"
    and "\<forall>c \<in> set (inputText s). isWhiteSpace c"
  shows "handleSummarize summarizeText s =
           (s\<lparr>error := Some (lit ''Please enter some text to summarize.'')\<rparr>, []) \<and>
         error (fst (handleSummarize summarizeText s)) \<noteq> None \<and>
         requests (snd (handleSummarize summarizeText s)) = 0"
proof -
  from assms(2) have "trim (inputText s) = []" by (simp add: trim_empty_iff)
  with assms(1) show ?thesis by (simp add: handleSummarize_def)
qed

theorem blank_note_rejected_witness:
  "\<not> apiKeyMissing blank \<and> inputText blank = [0x0020, 0x0009, 0x00A0] \<and>
   handleSummarize (answering sampleSummary) blank =
     (blank\<lparr>error := Some (lit ''Please enter some text to summarize.'')\<rparr>, []) \<and>
   error (fst (handleSummarize (answering sampleSummary) blank)) \<noteq> None \<and>
   requests (snd (handleSummarize (answering sampleSummary) blank)) = 0"
proof -
  have flag: "\<not> apiKeyMissing blank"
    by (simp add: blank_def setInputText_def initial_def)
  have content: "inputText blank = [0x0020, 0x0009, 0x00A0]"
    by (simp add: blank_def setInputText_def blanks_def)
  then have white: "\<forall>c \<in> set (inputText blank). isWhiteSpace c"
    by (simp add: isWhiteSpace_def)
  show ?thesis
    using flag content blank_note_rejected [OF flag white, of "answering sampleSummary"] by simp
qed

text \<open>
  C4: when the configuration flag is set, the summarize action changes no component of
  the view state and issues no call; and since nothing ever clears the flag, no sequence
  of handler invocations, settlements and timers that starts there issues a
  summarization request.
\<close>

theorem keyless_summarize_noop:
  assumes "apiKeyMissing s"
  shows "handleSummarize summarizeText s = (s, []) \<and>
         handleSummarize_begin s = (s, []) \<and>
         requests (snd (run acts s)) = 0"
proof -
  from assms have "handleSummarize summarizeText s = (s, [])"
    by (simp add: handleSummarize_def)
  moreover from assms have "handleSummarize_begin s = (s, [])"
    by (simp add: handleSummarize_begin_def)
  moreover from assms have "requests (snd (run acts s)) = 0"
    by (rule run_keyless_silent)
  ultimately show ?thesis by simp
qed

theorem keyless_summarize_noop_witness:
  "apiKeyMissing keyless \<and>
   handleSummarize (answering sampleSummary) keyless = (keyless, []) \<and>
   handleSummarize_begin keyless = (keyless, []) \<and>
   requests (snd (run [InputChanged sampleNote, SummarizeInvoked, ClearInvoked, SummarizeInvoked]
     keyless)) = 0"
  using keyless_flag
    keyless_summarize_noop [OF keyless_flag, of "answering sampleSummary"
      "[InputChanged sampleNote, SummarizeInvoked, ClearInvoked, SummarizeInvoked]"]
  by simp

text \<open>
  C5, as stated, places the guard against a second request inside the handler. The
  handler does not read the loading flag: invoked on a view that is loading (the view of
  the page after the Summarize button was pressed), with the configuration flag unset and
  a note that is not blank, it issues the call again.
\<close>

theorem second_request_counterexample:
  "view requesting = loading \<and> isLoading loading \<and>
   snd (handleSummarize_begin loading) = [SummarizeText sampleNote] \<and>
   requests (snd (handleSummarize (answering sampleSummary) loading)) = 1"
  by (simp add: loading_reached handleSummarize_begin_def handleSummarize_def loading_def
      initial_def sampleNote_not_blank answering_def)

text \<open>
  C5, amended: at most one summarization request is in flight at any time, and the
  loading flag is true exactly while one is. While the loading flag is true the
  Summarize button is disabled (line 119), so pressing it issues no second call: the
  guard is the button's, and the handler itself issues the same calls whether the view
  is loading or not.
\<close>

theorem one_request_in_flight:
  "inflight (steps gs (mounted key)) \<le> 1 \<and>
   (isLoading (view (steps gs (mounted key))) \<longleftrightarrow> inflight (steps gs (mounted key)) = 1) \<and>
   (isLoading (view p) \<longrightarrow> summarizeDisabled (view p) \<and> step ClickSummarize p = p) \<and>
   snd (handleSummarize_begin (s\<lparr>isLoading := True\<rparr>)) = snd (handleSummarize_begin s)"
proof -
  have "inflight (steps gs (mounted key)) =
      (if isLoading (view (steps gs (mounted key))) then 1 else 0)"
    using mounted_invariant by (rule steps_invariant)
  then have "inflight (steps gs (mounted key)) \<le> 1"
    and "isLoading (view (steps gs (mounted key))) \<longleftrightarrow> inflight (steps gs (mounted key)) = 1"
    by (simp_all split: if_splits)
  moreover have "isLoading (view p) \<longrightarrow> summarizeDisabled (view p) \<and> step ClickSummarize p = p"
    by (simp add: summarizeDisabled_def control_def)
  moreover have "snd (handleSummarize_begin (s\<lparr>isLoading := True\<rparr>)) = snd (handleSummarize_begin s)"
    by (simp add: handleSummarize_begin_def)
  ultimately show ?thesis by blast
qed

theorem one_request_in_flight_witness:
  "isLoading (view requesting) \<and> inflight requesting = 1 \<and>
   summarizeDisabled (view requesting) \<and> step ClickSummarize requesting = requesting \<and>
   inflight (steps [EditNote sampleNote, ClickSummarize, ClickSummarize]
     (mounted (Some sampleKey))) = 1"
proof -
  have busy: "isLoading (view requesting)"
    by (simp add: requesting_eq)
  have again: "steps [EditNote sampleNote, ClickSummarize, ClickSummarize]
      (mounted (Some sampleKey)) = step ClickSummarize requesting"
    by (simp add: requesting_def)
  note page = one_request_in_flight [of "[EditNote sampleNote, ClickSummarize]"
      "Some sampleKey" requesting drafted, folded requesting_def]
  from page busy have "inflight requesting = 1" and "summarizeDisabled (view requesting)"
    and "step ClickSummarize requesting = requesting"
    by blast+
  with busy again show ?thesis by metis
qed

section \<open>The clear action and the startup check\<close>

text \<open>
  C6: for every prior state, the clear action leaves the note text and the summary empty
  and the error absent, and does not touch the configuration flag.
\<close>

theorem handleClear_resets:
  "inputText (handleClear s) = [] \<and> summary (handleClear s) = [] \<and>
   error (handleClear s) = None \<and> apiKeyMissing (handleClear s) = apiKeyMissing s"
  by (simp add: handleClear_def)

theorem handleClear_resets_witness:
  "inputText (handleClear keyless) = [] \<and> summary (handleClear keyless) = [] \<and>
   error (handleClear keyless) = None \<and> apiKeyMissing (handleClear keyless)"
  using handleClear_resets [of keyless] keyless_flag by simp

text \<open>
  C7, as stated, makes the error message of the startup check permanent. The Clear
  button is enabled on a view mounted without credential, and its handler sets the error
  to absent (line 46).
\<close>

theorem credential_error_cleared_counterexample:
  "apiKeyMissing keyless \<and>
   error keyless =
     Some (lit ''Gemini API key is missing. Please set the API_KEY environment variable.'') \<and>
   \<not> clearDisabled keyless \<and>
   error (handleClear keyless) = None \<and>
   error (view (step ClickClear (mounted None))) = None"
  by (simp add: keyless_def startupCheck_def truthy_def initial_def clearDisabled_def
      handleClear_def mounted_def control_def invoke_def)

text \<open>
  C7, amended: if the credential is absent at startup (undefined or empty), the
  configuration flag is set and the error is the fixed text; no later operation clears
  the flag, on any sequence of handler invocations and on any use of the page; the error
  message stays as long as the Clear button is not pressed, and the clear action removes
  it.
\<close>

theorem credential_absent:
  assumes "\<not> truthy key"
  shows "apiKeyMissing (startupCheck key initial) \<and>
         error (startupCheck key initial) =
           Some (lit ''Gemini API key is missing. Please set the API_KEY environment variable.'') \<and>
         apiKeyMissing (fst (run acts (startupCheck key initial))) \<and>
         apiKeyMissing (view (steps gs (mounted key))) \<and>
         (ClickClear \<notin> set gs \<longrightarrow>
            error (view (steps gs (mounted key))) =
              Some (lit ''Gemini API key is missing. Please set the API_KEY environment variable.'')) \<and>
         error (handleClear (startupCheck key initial)) = None \<and>
         apiKeyMissing (handleClear (startupCheck key initial))"
proof -
  let ?msg = "lit ''Gemini API key is missing. Please set the API_KEY environment variable.''"
  from assms have flag: "apiKeyMissing (startupCheck key initial)"
    and msg: "error (startupCheck key initial) = Some ?msg"
    by (simp_all add: startupCheck_def)
  from flag have run: "apiKeyMissing (fst (run acts (startupCheck key initial)))"
    by (simp add: run_keeps_flag)
  from flag have page: "apiKeyMissing (view (mounted key))" by (simp add: mounted_def)
  then have steps: "apiKeyMissing (view (steps gs (mounted key)))"
    by (simp add: steps_keeps_flag)
  have idle: "inflight (mounted key) = 0" by (simp add: mounted_def)
  have "error (view (steps gs (mounted key))) = Some ?msg" if "ClickClear \<notin> set gs"
  proof -
    from page idle that have "error (view (steps gs (mounted key))) = error (view (mounted key))"
      by (rule steps_keeps_error)
    with msg show ?thesis by (simp add: mounted_def)
  qed
  moreover from flag have "error (handleClear (startupCheck key initial)) = None"
    and "apiKeyMissing (handleClear (startupCheck key initial))"
    by (simp_all add: handleClear_def)
  ultimately show ?thesis using flag msg run steps by blast
qed

theorem credential_absent_witness:
  "\<not> truthy (Some []) \<and>
   apiKeyMissing (startupCheck (Some []) initial) \<and>
   error (startupCheck (Some []) initial) =
     Some (lit ''Gemini API key is missing. Please set the API_KEY environment variable.'') \<and>
   apiKeyMissing (fst (run [ClearInvoked, InputChanged sampleNote, SummarizeInvoked]
     (startupCheck (Some []) initial))) \<and>
   apiKeyMissing (view (steps [EditNote sampleNote, ClickSummarize, ClickCopyNote, TimerExpires]
     (mounted (Some [])))) \<and>
   error (view (steps [EditNote sampleNote, ClickSummarize, ClickCopyNote, TimerExpires]
     (mounted (Some [])))) =
     Some (lit ''Gemini API key is missing. Please set the API_KEY environment variable.'') \<and>
   error (handleClear (startupCheck (Some []) initial)) = None \<and>
   apiKeyMissing (handleClear (startupCheck (Some []) initial))"
proof -
  have absent: "\<not> truthy (Some [])" by (simp add: truthy_def)
  have unclear: "ClickClear \<notin> set [EditNote sampleNote, ClickSummarize, ClickCopyNote, TimerExpires]"
    by simp
  show ?thesis
    using absent unclear
      credential_absent [OF absent,
        of "[ClearInvoked, InputChanged sampleNote, SummarizeInvoked]"
          "[EditNote sampleNote, ClickSummarize, ClickCopyNote, TimerExpires]"]
    by blast
qed

section \<open>Failure messages and the copy action\<close>

text \<open>
  C8: when the collaborator call fails, the stored error is the message of the failure
  where it has one, and the generic text otherwise. The handler reads the message with
  \<^verbatim>\<open>e.message || ...\<close>: a failure has a message when that property is a non-empty
  string, and has none when it is \<^verbatim>\<open>undefined\<close> or the empty string, which is
  the message of an \<^verbatim>\<open>Error\<close> built without one.
\<close>

theorem failure_message:
  assumes "snd (handleSummarize_begin s) = [SummarizeText T]"
    and "summarizeText T = Rejected e"
  shows "error (fst (handleSummarize summarizeText s)) =
           Some (case message e of
                   None \<Rightarrow> lit ''Failed to summarize text. Check console for details.''
                 | Some m \<Rightarrow>
                     if m = [] then lit ''Failed to summarize text. Check console for details.''
                     else m) \<and>
         error (fst (handleSummarize_settle (Rejected e) s')) =
           error (fst (handleSummarize summarizeText s))"
proof -
  from assms(1) have guards: "\<not> apiKeyMissing s" "trim (inputText s) \<noteq> []" and T: "T = inputText s"
    using begin_issues by blast+
  from assms(2) T have rejected: "summarizeText (inputText s) = Rejected e" by simp
  show ?thesis
  proof (cases "message e")
    case None
    with guards rejected show ?thesis
      by (simp add: handleSummarize_def handleSummarize_settle_def or_else_def)
  next
    case (Some m)
    with guards rejected show ?thesis
      by (simp add: handleSummarize_def handleSummarize_settle_def or_else_def)
  qed
qed

theorem failure_message_witness:
  "snd (handleSummarize_begin drafted) = [SummarizeText sampleNote] \<and>
   failing (Some sampleSummary) sampleNote = Rejected (Thrown (Some sampleSummary)) \<and>
   error (fst (handleSummarize (failing (Some sampleSummary)) drafted)) = Some sampleSummary \<and>
   failing (Some []) sampleNote = Rejected (Thrown (Some [])) \<and>
   error (fst (handleSummarize (failing (Some [])) drafted)) =
     Some (lit ''Failed to summarize text. Check console for details.'') \<and>
   failing None sampleNote = Rejected (Thrown None) \<and>
   error (fst (handleSummarize (failing None) drafted)) =
     Some (lit ''Failed to summarize text. Check console for details.'')"
proof -
  have call: "snd (handleSummarize_begin drafted) = [SummarizeText sampleNote]"
    by (rule begin_drafted)
  have answer: "failing v sampleNote = Rejected (Thrown v)" for v
    by (simp add: failing_def)
  have present: "sampleSummary \<noteq> []"
    by (simp add: sampleSummary_def lit_def)
  show ?thesis
    using call answer present
      failure_message [where s = drafted and T = sampleNote and s' = drafted
        and summarizeText = "failing (Some sampleSummary)" and e = "Thrown (Some sampleSummary)"]
      failure_message [where s = drafted and T = sampleNote and s' = drafted
        and summarizeText = "failing (Some [])" and e = "Thrown (Some [])"]
      failure_message [where s = drafted and T = sampleNote and s' = drafted
        and summarizeText = "failing None" and e = "Thrown None"]
    by simp
qed

text \<open>
  C9: for the empty string as text, the copy action writes nothing to the clipboard,
  shows no notification and leaves the view state as it is.
\<close>

theorem copy_empty_noop:
  "copyToClipboard writeText [] type s = (s, []) \<and> copyToClipboard_begin [] s = (s, [])"
  by (simp add: copyToClipboard_def copyToClipboard_begin_def)

theorem copy_empty_noop_witness:
  "copyToClipboard writable [] (lit ''Summary'') initial = (initial, []) \<and>
   copyToClipboard_begin [] initial = (initial, [])"
  using copy_empty_noop [of writable "lit ''Summary''" initial] by simp

text \<open>
  C10: for a non-empty text of whitespace only, the copy action does write the text to
  the clipboard and does show a notification, whether the write succeeds or fails: its
  guard tests emptiness and does not trim. The notification is the message of the
  outcome, a non-empty string, which the page renders, and its timer of 2000 ms is
  started. The summarize action on a note of the same text issues no call.
\<close>

theorem copy_blank_text:
  assumes "text \<noteq> []"
    and "\<forall>c \<in> set text. isWhiteSpace c"
  shows "ClipboardWrite text \<in> set (snd (copyToClipboard writeText text type s)) \<and>
         copyNotification (fst (copyToClipboard writeText text type s)) =
           Some (case writeText text of
                   Fulfilled u \<Rightarrow> type @ lit '' copied to clipboard!''
                 | Rejected err \<Rightarrow> lit ''Failed to copy '' @ type @ lit ''.'') \<and>
         truthy (copyNotification (fst (copyToClipboard writeText text type s))) \<and>
         SetTimeout 2000 \<in> set (snd (copyToClipboard writeText text type s)) \<and>
         snd (copyToClipboard_begin text s) = [ClipboardWrite text] \<and>
         copyNotification (fst (copyToClipboard_settle r type s)) =
           Some (case r of
                   Fulfilled u \<Rightarrow> type @ lit '' copied to clipboard!''
                 | Rejected err \<Rightarrow> lit ''Failed to copy '' @ type @ lit ''.'') \<and>
         truthy (copyNotification (fst (copyToClipboard_settle r type s))) \<and>
         SetTimeout 2000 \<in> set (snd (copyToClipboard_settle r type s)) \<and>
         requests (snd (handleSummarize summarizeText (setInputText text s))) = 0"
proof -
  from assms(1) have "ClipboardWrite text \<in> set (snd (copyToClipboard writeText text type s))"
    and "copyNotification (fst (copyToClipboard writeText text type s)) =
           Some (case writeText text of
                   Fulfilled u \<Rightarrow> type @ lit '' copied to clipboard!''
                 | Rejected err \<Rightarrow> lit ''Failed to copy '' @ type @ lit ''.'')"
    and "truthy (copyNotification (fst (copyToClipboard writeText text type s)))"
    and "SetTimeout 2000 \<in> set (snd (copyToClipboard writeText text type s))"
    by (cases "writeText text";
        simp add: copyToClipboard_def showCopyNotification_def truthy_def lit_def)+
  moreover from assms(1) have "snd (copyToClipboard_begin text s) = [ClipboardWrite text]"
    by (simp add: copyToClipboard_begin_def)
  moreover have "copyNotification (fst (copyToClipboard_settle r type s)) =
           Some (case r of
                   Fulfilled u \<Rightarrow> type @ lit '' copied to clipboard!''
                 | Rejected err \<Rightarrow> lit ''Failed to copy '' @ type @ lit ''.'')"
    and "truthy (copyNotification (fst (copyToClipboard_settle r type s)))"
    and "SetTimeout 2000 \<in> set (snd (copyToClipboard_settle r type s))"
    by (cases r;
        simp add: copyToClipboard_settle_def showCopyNotification_def truthy_def lit_def)+
  moreover from assms(2) have "trim text = []" by (simp add: trim_empty_iff)
  then have "requests (snd (handleSummarize summarizeText (setInputText text s))) = 0"
    by (simp add: handleSummarize_def setInputText_def)
  ultimately show ?thesis by simp
qed

theorem copy_blank_text_witness:
  "blanks \<noteq> [] \<and> trim blanks = [] \<and>
   ClipboardWrite blanks \<in> set (snd (copyToClipboard writable blanks (lit ''Note'') blank)) \<and>
   copyNotification (fst (copyToClipboard writable blanks (lit ''Note'') blank)) =
     Some (lit ''Note copied to clipboard!'') \<and>
   truthy (copyNotification (fst (copyToClipboard writable blanks (lit ''Note'') blank))) \<and>
   SetTimeout 2000 \<in> set (snd (copyToClipboard writable blanks (lit ''Note'') blank)) \<and>
   snd (copyToClipboard_begin blanks blank) = [ClipboardWrite blanks] \<and>
   copyNotification (fst (copyToClipboard_settle (Rejected (Thrown None)) (lit ''Note'') blank)) =
     Some (lit ''Failed to copy Note.'') \<and>
   truthy (copyNotification
     (fst (copyToClipboard_settle (Rejected (Thrown None)) (lit ''Note'') blank))) \<and>
   SetTimeout 2000 \<in>
     set (snd (copyToClipboard_settle (Rejected (Thrown None)) (lit ''Note'') blank)) \<and>
   requests (snd (handleSummarize (answering sampleSummary) (setInputText blanks blank))) = 0"
proof -
  have nonempty: "blanks \<noteq> []" by (simp add: blanks_def)
  have white: "\<forall>c \<in> set blanks. isWhiteSpace c"
    using blanks_blank by (simp add: trim_empty_iff)
  have written: "writable blanks = Fulfilled ()" by (simp add: writable_def)
  have glued: "lit ''Note'' @ lit '' copied to clipboard!'' = lit ''Note copied to clipboard!''"
    "lit ''Failed to copy '' @ lit ''Note'' @ lit ''.'' = lit ''Failed to copy Note.''"
    by (simp_all add: lit_def)
  show ?thesis
    using nonempty blanks_blank written glued
      copy_blank_text [OF nonempty white, of writable "lit ''Note''" blank
        "Rejected (Thrown None)" "answering sampleSummary"]
    by (simp add: truthy_def lit_def)
qed

end
